theory Spec2Isabelle
  imports Complex_Main
begin

section \<open>Calendar time as the moment library presents it\<close>

text \<open>
  \<^verbatim>\<open>handleCumulativeReset\<close> works on moment objects. A moment is either invalid or
  stands for an instant, shown as civil fields at a UTC offset. The fields are the
  ones moment's getters return: \<open>month\<close> counts from 0 and \<open>date\<close> is the day of the
  month. The offset is in minutes, as \<^verbatim>\<open>utcOffset()\<close> returns it: 0 for a moment in UTC
  mode, the fixed offset of a moment made with \<^verbatim>\<open>parseZone\<close> or \<^verbatim>\<open>utcOffset(n)\<close>, and the
  server zone's offset at that instant for a moment in local mode.
\<close>

record datetime =
  year :: int
  month :: int
  date :: int
  hour :: int
  minute :: int
  second :: int
  millisecond :: int

datatype moment = InvalidMoment | Moment datetime int

definition isLeapYear :: "int \<Rightarrow> bool" where
  "isLeapYear y \<longleftrightarrow> (y mod 4 = 0 \<and> y mod 100 \<noteq> 0) \<or> y mod 400 = 0"

definition daysInMonth :: "int \<Rightarrow> int \<Rightarrow> int" where
  "daysInMonth y m =
     (let modMonth = m mod 12;
          y' = y + (m - modMonth) div 12
      in if modMonth = 1 then (if isLeapYear y' then 29 else 28)
         else 31 - ((modMonth mod 7) mod 2))"


text \<open>Days from 1970-01-01 to the given civil date (month from 0).\<close>

definition daysFromCivil :: "int \<Rightarrow> int \<Rightarrow> int \<Rightarrow> int" where
  "daysFromCivil y m d =
     (let y' = (if m \<le> 1 then y - 1 else y);
          era = y' div 400;
          yoe = y' - era * 400;
          mp = (m + 10) mod 12;
          doy = (153 * mp + 2) div 5 + d - 1;
          doe = yoe * 365 + yoe div 4 - yoe div 100 + doy
      in era * 146097 + doe - 719468)"

definition timeOfDayMs :: "datetime \<Rightarrow> int" where
  "timeOfDayMs dt = ((hour dt * 60 + minute dt) * 60 + second dt) * 1000 + millisecond dt"

text \<open>The fields read as a time in UTC, in milliseconds since 1970-01-01T00:00:00.\<close>

definition localMs :: "datetime \<Rightarrow> int" where
  "localMs dt = daysFromCivil (year dt) (month dt) (date dt) * 86400000 + timeOfDayMs dt"

text \<open>
  \<^verbatim>\<open>valueOf()\<close>: the instant of a moment showing fields \<open>dt\<close> at offset \<open>off\<close>, in
  milliseconds since 1970-01-01T00:00:00 UTC.
\<close>

definition valueOf :: "datetime \<Rightarrow> int \<Rightarrow> int" where
  "valueOf dt off = localMs dt - off * 60000"

text \<open>
  The server's time zone, as far as the code meets it: \<^verbatim>\<open>new Date(y, m, d, h, M, s, ms)\<close>
  takes fields as a local time, and the date it builds shows local fields at a UTC
  offset. Away from a clock change the fields shown are the fields given. A local
  time that a clock change skips or repeats is taken at the offset in force before
  the change, so a skipped time is shown moved forward.
\<close>

type_synonym zone = "datetime \<Rightarrow> datetime \<times> int"

text \<open>\<^verbatim>\<open>add(1, 'd')\<close> on the civil fields.\<close>

definition addOneDay :: "datetime \<Rightarrow> datetime" where
  "addOneDay dt =
     (if date dt < daysInMonth (year dt) (month dt) then dt\<lparr>date := date dt + 1\<rparr>
      else if month dt < 11 then dt\<lparr>month := month dt + 1, date := 1\<rparr>
      else dt\<lparr>year := year dt + 1, month := 0, date := 1\<rparr>)"

text \<open>
  \<^verbatim>\<open>isSameOrAfter\<close> and \<^verbatim>\<open>isSameOrBefore\<close> compare the instants, and are false as soon
  as one of the two moments is invalid.
\<close>

fun isSameOrAfter :: "moment \<Rightarrow> moment \<Rightarrow> bool" where
  "isSameOrAfter (Moment a oa) (Moment b ob) = (valueOf a oa \<ge> valueOf b ob)"
| "isSameOrAfter _ _ = False"

fun isSameOrBefore :: "moment \<Rightarrow> moment \<Rightarrow> bool" where
  "isSameOrBefore (Moment a oa) (Moment b ob) = (valueOf a oa \<le> valueOf b ob)"
| "isSameOrBefore _ _ = False"

subsection \<open>Formatting with \<^verbatim>\<open>'MM-DD-YYYY'\<close>\<close>

text \<open>A moment is formatted from the fields it shows, at its own offset.\<close>

definition is_digit :: "char \<Rightarrow> bool" where
  "is_digit c \<longleftrightarrow> c \<in> set ''0123456789''"

definition digit_char :: "nat \<Rightarrow> char" where
  "digit_char d = ''0123456789'' ! d"

definition digit_val :: "char \<Rightarrow> int" where
  "digit_val c = int (of_char c) - 48"

text \<open>The decimal numeral of a natural number, as JavaScript's \<^verbatim>\<open>'' + n\<close>.\<close>

fun decimal :: "nat \<Rightarrow> string" where
  "decimal n = (if n < 10 then [digit_char n] else decimal (n div 10) @ [digit_char (n mod 10)])"

declare decimal.simps [simp del]

text \<open>
  \<^verbatim>\<open>zeroFill(number, targetLength)\<close>: the sign of a negative number, then zeros up
  to the target length, then the digits; longer numbers are not cut.
\<close>

definition zeroFill :: "int \<Rightarrow> nat \<Rightarrow> string" where
  "zeroFill number targetLength =
     (let absNumber = decimal (nat \<bar>number\<bar>)
      in (if number \<ge> 0 then [] else ''-'')
         @ replicate (targetLength - length absNumber) (CHR ''0'') @ absNumber)"

fun format_MM_DD_YYYY :: "moment \<Rightarrow> string" where
  "format_MM_DD_YYYY InvalidMoment = ''Invalid date''"
| "format_MM_DD_YYYY (Moment dt off) =
     zeroFill (month dt + 1) 2 @ ''-'' @ zeroFill (date dt) 2 @ ''-'' @ zeroFill (year dt) 4"

subsection \<open>Forgiving parsing with \<^verbatim>\<open>"MM/DD/YYYY HH:mm:ss"\<close>\<close>

text \<open>
  Outside strict mode moment walks through the tokens of the format. For each token
  it searches the remaining input for the first match of the token's pattern (one or
  two digits, one to four digits for \<open>YYYY\<close>, the character itself for punctuation),
  drops the input up to the end of the match, and stores the number read. A token
  that finds no match is passed over and the input is left as it is.
\<close>

datatype token = MM | DD | YYYY | HH | Tmm | Tss | Lit char

definition formatTokens :: "token list" where
  "formatTokens = [MM, Lit (CHR ''/''), DD, Lit (CHR ''/''), YYYY, Lit (CHR '' ''),
                   HH, Lit (CHR '':''), Tmm, Lit (CHR '':''), Tss]"

record config =
  aYEAR :: "int option"
  aMONTH :: "int option"
  aDATE :: "int option"
  aHOUR :: "int option"
  aMINUTE :: "int option"
  aSECOND :: "int option"
  aMILLISECOND :: "int option"
  pfEmpty :: bool

definition emptyConfig :: config where
  "emptyConfig = \<lparr>aYEAR = None, aMONTH = None, aDATE = None, aHOUR = None, aMINUTE = None,
                  aSECOND = None, aMILLISECOND = None, pfEmpty = True\<rparr>"

text \<open>First match of one to \<open>n\<close> digits: the text matched and the input after it.\<close>

definition matchDigits :: "nat \<Rightarrow> string \<Rightarrow> (string \<times> string) option" where
  "matchDigits n s =
     (let r = dropWhile (\<lambda>c. \<not> is_digit c) s;
          parsedInput = take n (takeWhile is_digit r)
      in if parsedInput = [] then None else Some (parsedInput, drop (length parsedInput) r))"

text \<open>First occurrence of a character: the input after it.\<close>

definition matchLiteral :: "char \<Rightarrow> string \<Rightarrow> string option" where
  "matchLiteral c s = (if c \<in> set s then Some (tl (dropWhile (\<lambda>x. x \<noteq> c) s)) else None)"

definition toInt :: "string \<Rightarrow> int" where
  "toInt input = foldl (\<lambda>acc c. 10 * acc + digit_val c) 0 input"

definition parseTwoDigitYear :: "string \<Rightarrow> int" where
  "parseTwoDigitYear input = toInt input + (if toInt input > 68 then 1900 else 2000)"

definition tokenPattern :: "token \<Rightarrow> nat" where
  "tokenPattern t = (if t = YYYY then 4 else 2)"

fun storeToken :: "token \<Rightarrow> string \<Rightarrow> config \<Rightarrow> config" where
  "storeToken MM input c = c\<lparr>aMONTH := Some (toInt input - 1)\<rparr>"
| "storeToken DD input c = c\<lparr>aDATE := Some (toInt input)\<rparr>"
| "storeToken YYYY input c =
     c\<lparr>aYEAR := Some (if length input = 2 then parseTwoDigitYear input else toInt input)\<rparr>"
| "storeToken HH input c = c\<lparr>aHOUR := Some (toInt input)\<rparr>"
| "storeToken Tmm input c = c\<lparr>aMINUTE := Some (toInt input)\<rparr>"
| "storeToken Tss input c = c\<lparr>aSECOND := Some (toInt input)\<rparr>"
| "storeToken (Lit x) input c = c"

fun parseToken :: "string \<times> config \<Rightarrow> token \<Rightarrow> string \<times> config" where
  "parseToken (s, c) (Lit x) = (case matchLiteral x s of None \<Rightarrow> (s, c) | Some rest \<Rightarrow> (rest, c))"
| "parseToken (s, c) t =
     (case matchDigits (tokenPattern t) s of
        None \<Rightarrow> (s, c)
      | Some (parsedInput, rest) \<Rightarrow> (rest, storeToken t parsedInput (c\<lparr>pfEmpty := False\<rparr>)))"

definition configFromStringAndFormat :: "string \<Rightarrow> config" where
  "configFromStringAndFormat s = snd (foldl parseToken (s, emptyConfig) formatTokens)"

text \<open>
  \<^verbatim>\<open>configFromArray\<close>: leading fields that were not read take today's value; from the
  first field that was read on, a missing field is 0 (1 for the day of the month).
\<close>

definition configFromArray :: "datetime \<Rightarrow> config \<Rightarrow> datetime" where
  "configFromArray now c =
     (let y = (case aYEAR c of Some v \<Rightarrow> v | None \<Rightarrow> year now);
          m = (case aMONTH c of Some v \<Rightarrow> v
               | None \<Rightarrow> if aYEAR c = None then month now else 0);
          d = (case aDATE c of Some v \<Rightarrow> v
               | None \<Rightarrow> if aYEAR c = None \<and> aMONTH c = None then date now else 1)
      in \<lparr>year = y, month = m, date = d,
          hour = (case aHOUR c of Some v \<Rightarrow> v | None \<Rightarrow> 0),
          minute = (case aMINUTE c of Some v \<Rightarrow> v | None \<Rightarrow> 0),
          second = (case aSECOND c of Some v \<Rightarrow> v | None \<Rightarrow> 0),
          millisecond = (case aMILLISECOND c of Some v \<Rightarrow> v | None \<Rightarrow> 0)\<rparr>)"

text \<open>\<^verbatim>\<open>checkOverflow\<close>: a field out of range; hour 24 is in range at 24:00:00.000 only.\<close>

definition overflow :: "datetime \<Rightarrow> bool" where
  "overflow a \<longleftrightarrow>
     month a < 0 \<or> month a > 11 \<or>
     date a < 1 \<or> date a > daysInMonth (year a) (month a) \<or>
     hour a < 0 \<or> hour a > 24 \<or>
     (hour a = 24 \<and> (minute a \<noteq> 0 \<or> second a \<noteq> 0 \<or> millisecond a \<noteq> 0)) \<or>
     minute a < 0 \<or> minute a > 59 \<or>
     second a < 0 \<or> second a > 59 \<or>
     millisecond a < 0 \<or> millisecond a > 999"

text \<open>
  \<^verbatim>\<open>moment(string, format)\<close>: valid when some token was read and no field overflows.
  The fields read are a local time of the server's zone, whatever the mode of the
  moment the date part was formatted from. 24:00:00 is built as 00:00:00 and then
  moved on by one day.
\<close>

definition momentFromString :: "zone \<Rightarrow> datetime \<Rightarrow> string \<Rightarrow> moment" where
  "momentFromString zone now s =
     (let c = configFromStringAndFormat s;
          a = configFromArray now c
      in if pfEmpty c \<or> overflow a then InvalidMoment
         else if hour a = 24 then
           (case zone (a\<lparr>hour := 0\<rparr>) of (f0, o0) \<Rightarrow>
              (case zone (addOneDay f0) of (f1, o1) \<Rightarrow> Moment f1 o1))
         else (case zone a of (f, off) \<Rightarrow> Moment f off))"

section \<open>The reset window test\<close>

text \<open>
  \<^verbatim>\<open>handleCumulativeReset(cumulativeReset, resetStart, resetEnd, startTimestamp)\<close>.
  The first two arguments of the model are the surroundings the moment library
  reads: the server's time zone, and today's date, which it takes when a string
  carries no date.
\<close>

definition handleCumulativeReset ::
  "zone \<Rightarrow> datetime \<Rightarrow> bool \<Rightarrow> string \<Rightarrow> string \<Rightarrow> moment \<Rightarrow> bool" where
  "handleCumulativeReset zone now cumulativeReset resetStart resetEnd startTimestamp =
     (if \<not> cumulativeReset then False
      else
        (let testStart = startTimestamp;
             testResetStart = momentFromString zone now (format_MM_DD_YYYY testStart @ '' '' @ resetStart);
             testResetEnd = momentFromString zone now (format_MM_DD_YYYY testStart @ '' '' @ resetEnd)
         in if isSameOrAfter testStart testResetStart \<and> isSameOrBefore testStart testResetEnd
            then True else False))"


subsection \<open>The window as the specification words it\<close>







subsection \<open>Time zones to run the test in\<close>

text \<open>A zone that keeps one UTC offset, in minutes; offset 0 is UTC.\<close>

definition fixedZone :: "int \<Rightarrow> zone" where
  "fixedZone off = (\<lambda>f. (f, off))"

text \<open>
  The zone America/New_York for local times of the year 2023: 300 minutes behind
  UTC, and 240 minutes behind from 12 March, when 02:00 was followed by 03:00, until
  5 November, when 02:00 was followed by 01:00. A time in the skipped hour is taken
  at the offset before the change, and is shown one hour later.
\<close>

definition newYork2023 :: zone where
  "newYork2023 f =
     (let springGap = \<lparr>year = 2023, month = 2, date = 12, hour = 2, minute = 0, second = 0,
                        millisecond = 0\<rparr>;
          springOn = \<lparr>year = 2023, month = 2, date = 12, hour = 3, minute = 0, second = 0,
                       millisecond = 0\<rparr>;
          autumnBack = \<lparr>year = 2023, month = 10, date = 5, hour = 2, minute = 0, second = 0,
                         millisecond = 0\<rparr>
      in if localMs f < localMs springGap then (f, - 300)
         else if localMs f < localMs springOn then (f\<lparr>hour := hour f + 1\<rparr>, - 240)
         else if localMs f < localMs autumnBack then (f, - 240)
         else (f, - 300))"

section \<open>JavaScript numbers\<close>

text \<open>
  JavaScript numbers as far as the code below tells them apart: \<open>undefined\<close>, \<open>NaN\<close>, or
  a number. \<^verbatim>\<open>isNaN\<close> is true of the first two. A comparison with \<open>NaN\<close> on either side
  is false.
\<close>

datatype number = Undefined | NaN | Num real

fun isNaN :: "number \<Rightarrow> bool" where
  "isNaN (Num x) = False"
| "isNaN _ = True"

fun num_less :: "number \<Rightarrow> number \<Rightarrow> bool" where
  "num_less (Num a) (Num b) = (a < b)"
| "num_less _ _ = False"

fun num_greater :: "number \<Rightarrow> number \<Rightarrow> bool" where
  "num_greater (Num a) (Num b) = (a > b)"
| "num_greater _ _ = False"

fun num_le :: "number \<Rightarrow> number \<Rightarrow> bool" where
  "num_le (Num a) (Num b) = (a \<le> b)"
| "num_le _ _ = False"

section \<open>Conversion table store\<close>

text \<open>
  The class \<^verbatim>\<open>Cik\<close> holds one conversion: a meter unit id, a non-meter unit id, a
  slope and an intercept.
\<close>

record Cik =
  meterUnitId :: nat
  nonMeterUnitId :: nat
  slope :: number
  intercept :: number

text \<open>
  The conversion array handed to \<^verbatim>\<open>Cik.insert\<close>: rows of columns of cells, each cell
  an array whose element 0 is the slope and element 1 the intercept; element 2 is
  not used. The elements are numbers, \<open>NaN\<close> where there is no conversion.
\<close>

type_synonym cell = "number \<times> number \<times> number"

type_synonym ConversionMatrix = "cell list list"

subsection \<open>The database behind the connection\<close>

text \<open>
  \<^verbatim>\<open>Cik\<close> reaches the database through \<^verbatim>\<open>conn.none\<close> and \<^verbatim>\<open>conn.any\<close> with three SQL
  files. The module \<^verbatim>\<open>./database\<close> and the SQL files are not among the sources; what
  they do is taken from the specification (sections 6 and 7).
\<close>

text \<open>
  Modelled from the spec: a row of the \<open>cik\<close> table, whose declaration
  (\<^verbatim>\<open>create_cik_table.sql\<close>) is missing, with the columns \<open>meter_unit_id\<close>,
  \<open>non_meter_unit_id\<close>, \<open>slope\<close> and \<open>intercept\<close>.
\<close>

record db_row =
  meter_unit_id :: nat
  non_meter_unit_id :: nat
  db_slope :: number
  db_intercept :: number

text \<open>
  Modelled from the spec: the error with which a call of the missing database
  module fails; every failing storage operation surfaces as \<open>PersistenceError\<close>.
\<close>

datatype error = PersistenceError

text \<open>
  Modelled from the spec: the state of the missing database. \<open>table\<close> lists the rows
  in insertion order. \<open>failures\<close> tells which of the coming storage operations fail:
  its head is for the next operation, and once it is used up every operation
  succeeds.
\<close>

record storage =
  table :: "db_row list"
  failures :: "bool list"

text \<open>
  Modelled from the spec: whether the next operation of the missing database module
  fails.
\<close>

definition nextFails :: "storage \<Rightarrow> bool" where
  "nextFails st = (case failures st of [] \<Rightarrow> False | b # _ \<Rightarrow> b)"

text \<open>
  Modelled from the spec: one operation of the missing database module has been
  attempted.
\<close>

definition consume :: "storage \<Rightarrow> storage" where
  "consume st = st\<lparr>failures := tl (failures st)\<rparr>"

text \<open>
  Modelled from the spec: \<^verbatim>\<open>conn.none\<close> with the missing \<^verbatim>\<open>delete_all_conversions.sql\<close>,
  which deletes all conversion rows. A failed operation leaves the table as it was.
\<close>

definition deleteAllConversions :: "storage \<Rightarrow> (error + unit) \<times> storage" where
  "deleteAllConversions st =
     (if nextFails st then (Inl PersistenceError, consume st)
      else (Inr (), (consume st)\<lparr>table := []\<rparr>))"

text \<open>
  Modelled from the spec: \<^verbatim>\<open>conn.none\<close> with the missing \<^verbatim>\<open>insert_new_conversion.sql\<close>,
  which inserts one conversion row given (row index, column index, slope,
  intercept); the two indices become the two unit ids. A failed operation leaves
  the table as it was.
\<close>

definition insertNewConversion ::
  "nat \<Rightarrow> nat \<Rightarrow> number \<Rightarrow> number \<Rightarrow> storage \<Rightarrow> (error + unit) \<times> storage" where
  "insertNewConversion rowIndex columnIndex s i st =
     (if nextFails st then (Inl PersistenceError, consume st)
      else (Inr (), (consume st)\<lparr>table := table st @
              [\<lparr>meter_unit_id = rowIndex, non_meter_unit_id = columnIndex,
                db_slope = s, db_intercept = i\<rparr>]\<rparr>))"

text \<open>
  Modelled from the spec: \<^verbatim>\<open>conn.any\<close> with the missing \<^verbatim>\<open>get_cik.sql\<close>, the read-all
  query, which returns every row of the table.
\<close>

definition getCik :: "storage \<Rightarrow> (error + db_row list) \<times> storage" where
  "getCik st =
     (if nextFails st then (Inl PersistenceError, consume st)
      else (Inr (table st), consume st))"

subsection \<open>The methods of \<^verbatim>\<open>Cik\<close>\<close>

text \<open>\<^verbatim>\<open>Cik.mapRow(row)\<close> builds a \<^verbatim>\<open>Cik\<close> from the four columns of a row.\<close>

definition mapRow :: "db_row \<Rightarrow> Cik" where
  "mapRow row = \<lparr>meterUnitId = meter_unit_id row, nonMeterUnitId = non_meter_unit_id row,
                 slope = db_slope row, intercept = db_intercept row\<rparr>"

text \<open>
  \<^verbatim>\<open>Cik.getAll(conn)\<close> awaits the rows of the query and maps \<^verbatim>\<open>Cik.mapRow\<close> over them. A
  failing query rejects the promise; the error is the result.
\<close>

definition getAll :: "storage \<Rightarrow> (error + Cik list) \<times> storage" where
  "getAll st =
     (case getCik st of
        (Inl e, st') \<Rightarrow> (Inl e, st')
      | (Inr rows, st') \<Rightarrow> (Inr (map mapRow rows), st'))"

text \<open>
  The inner loop of \<^verbatim>\<open>Cik.insert\<close>, over the columns of row \<open>row\<close> from \<open>column\<close> on. A
  cell is inserted when \<^verbatim>\<open>!isNaN(cik[row][column][0])\<close>, with the row and column index,
  element 0 and element 1. On the elements of a conversion array the global
  \<^verbatim>\<open>isNaN\<close> is true of \<open>NaN\<close> and of \<open>undefined\<close> and false of every number. An insert
  that fails ends the loops and the call with its error.
\<close>

fun insertColumns :: "nat \<Rightarrow> nat \<Rightarrow> cell list \<Rightarrow> storage \<Rightarrow> (error + unit) \<times> storage" where
  "insertColumns row column [] st = (Inr (), st)"
| "insertColumns row column (cell # cells) st =
     (if \<not> isNaN (fst cell) then
        (case insertNewConversion row column (fst cell) (fst (snd cell)) st of
           (Inl e, st') \<Rightarrow> (Inl e, st')
         | (Inr _, st') \<Rightarrow> insertColumns row (Suc column) cells st')
      else insertColumns row (Suc column) cells st)"

text \<open>The outer loop of \<^verbatim>\<open>Cik.insert\<close>, over the rows of the array from \<open>row\<close> on.\<close>

fun insertRows :: "nat \<Rightarrow> cell list list \<Rightarrow> storage \<Rightarrow> (error + unit) \<times> storage" where
  "insertRows row [] st = (Inr (), st)"
| "insertRows row (cells # rest) st =
     (case insertColumns row 0 cells st of
        (Inl e, st') \<Rightarrow> (Inl e, st')
      | (Inr _, st') \<Rightarrow> insertRows (Suc row) rest st')"

text \<open>
  \<^verbatim>\<open>Cik.insert(cik, conn)\<close>, which the specification calls \<open>replaceAll\<close>: it removes all
  current rows, then loops over the rows and columns of the array. There is no
  transaction around the two steps.
\<close>

definition insert_Cik :: "ConversionMatrix \<Rightarrow> storage \<Rightarrow> (error + unit) \<times> storage" where
  "insert_Cik cik st =
     (case deleteAllConversions st of
        (Inl e, st') \<Rightarrow> (Inl e, st')
      | (Inr _, st') \<Rightarrow> insertRows 0 cik st')"

subsection \<open>The table contents as the specification words them\<close>

text \<open>
  The specification asks for one row for each cell whose slope is a defined number
  that is not \<open>NaN\<close>, with the row index and the column index as the two ids and the
  cell's slope and intercept. \<open>spec_isNumber\<close> is that condition on a slope,
  \<open>spec_definedCell\<close> says that the matrix has such a cell at (row, column),
  \<open>spec_rowOf\<close> is the row asked for, and \<open>spec_rows\<close> lists the rows asked for in
  row-major order.
\<close>

fun spec_isNumber :: "number \<Rightarrow> bool" where
  "spec_isNumber (Num x) = True"
| "spec_isNumber _ = False"

definition spec_rowOf :: "nat \<Rightarrow> nat \<Rightarrow> cell \<Rightarrow> db_row" where
  "spec_rowOf r c cell = \<lparr>meter_unit_id = r, non_meter_unit_id = c,
                          db_slope = fst cell, db_intercept = fst (snd cell)\<rparr>"

definition spec_definedCell :: "ConversionMatrix \<Rightarrow> nat \<Rightarrow> nat \<Rightarrow> bool" where
  "spec_definedCell cik r c \<longleftrightarrow>
     r < length cik \<and> c < length (cik ! r) \<and> spec_isNumber (fst (cik ! r ! c))"

fun spec_rowsOfCells :: "nat \<Rightarrow> nat \<Rightarrow> cell list \<Rightarrow> db_row list" where
  "spec_rowsOfCells r c [] = []"
| "spec_rowsOfCells r c (cell # cells) =
     (if spec_isNumber (fst cell) then spec_rowOf r c cell # spec_rowsOfCells r (Suc c) cells
      else spec_rowsOfCells r (Suc c) cells)"

fun spec_rowsOfMatrix :: "nat \<Rightarrow> cell list list \<Rightarrow> db_row list" where
  "spec_rowsOfMatrix r [] = []"
| "spec_rowsOfMatrix r (cells # rest) = spec_rowsOfCells r 0 cells @ spec_rowsOfMatrix (Suc r) rest"

definition spec_rows :: "ConversionMatrix \<Rightarrow> db_row list" where
  "spec_rows cik = spec_rowsOfMatrix 0 cik"

text \<open>
  A run of \<^verbatim>\<open>conn.none\<close> insertions of the given rows one after the other, ended by the
  first that fails; the loops of \<^verbatim>\<open>Cik.insert\<close> amount to such a run.
\<close>

fun insertSeq :: "db_row list \<Rightarrow> storage \<Rightarrow> (error + unit) \<times> storage" where
  "insertSeq [] st = (Inr (), st)"
| "insertSeq (x # xs) st =
     (case insertNewConversion (meter_unit_id x) (non_meter_unit_id x) (db_slope x) (db_intercept x) st of
        (Inl e, st') \<Rightarrow> (Inl e, st')
      | (Inr _, st') \<Rightarrow> insertSeq xs st')"

section \<open>The preferences form\<close>

text \<open>
  \<^verbatim>\<open>PreferencesComponent\<close> keeps the edited preferences in \<open>localAdminPref\<close> and a flag
  \<open>hasChanges\<close>. The fields read by the validity checks hold what the form inputs
  deliver, which is text. \<^verbatim>\<open>Number\<close>, \<^verbatim>\<open>moment\<close> and \<^verbatim>\<open>moment.duration\<close> turn the text
  into a number, a moment and a duration; they belong to the language and to the
  moment library and are taken as parameters, together with the bounds imported from
  \<^verbatim>\<open>adminSelectors\<close>, whose values are declared in another file.
\<close>

datatype duration = InvalidDuration | Duration real

fun durationIsValid :: "duration \<Rightarrow> bool" where
  "durationIsValid InvalidDuration = False"
| "durationIsValid (Duration s) = True"

fun asSeconds :: "duration \<Rightarrow> number" where
  "asSeconds InvalidDuration = NaN"
| "asSeconds (Duration s) = Num s"

fun isValid :: "moment \<Rightarrow> bool" where
  "isValid InvalidMoment = False"
| "isValid (Moment dt off) = True"

record PreferenceRequestItem =
  defaultMeterReadingFrequency :: string
  defaultMeterMinimumValue :: string
  defaultMeterMaximumValue :: string
  defaultMeterMinimumDate :: string
  defaultMeterMaximumDate :: string
  defaultMeterReadingGap :: string
  defaultMeterMaximumErrors :: string
  defaultFileSizeLimit :: string
  defaultWarningFileSize :: string

record library =
  Number :: "string \<Rightarrow> number"
  momentOf :: "string \<Rightarrow> moment"
  momentDuration :: "string \<Rightarrow> duration"
  MIN_VAL :: number
  MAX_VAL :: number
  MIN_DATE_MOMENT :: moment
  MAX_DATE_MOMENT :: moment
  MAX_ERRORS :: number

record component =
  localAdminPref :: PreferenceRequestItem
  hasChanges :: bool

definition invalidReadingFreq :: "library \<Rightarrow> PreferenceRequestItem \<Rightarrow> bool" where
  "invalidReadingFreq lib p =
     (let frequency = momentDuration lib (defaultMeterReadingFrequency p)
      in \<not> durationIsValid frequency \<or> num_le (asSeconds frequency) (Num 0))"

definition invalidMinValue :: "library \<Rightarrow> PreferenceRequestItem \<Rightarrow> bool" where
  "invalidMinValue lib p =
     (let min = Number lib (defaultMeterMinimumValue p);
          max = Number lib (defaultMeterMaximumValue p)
      in num_less min (MIN_VAL lib) \<or> num_greater min max)"

definition invalidMaxValue :: "library \<Rightarrow> PreferenceRequestItem \<Rightarrow> bool" where
  "invalidMaxValue lib p =
     (let min = Number lib (defaultMeterMinimumValue p);
          max = Number lib (defaultMeterMaximumValue p)
      in num_greater max (MAX_VAL lib) \<or> num_greater min max)"

definition invalidMinDate :: "library \<Rightarrow> PreferenceRequestItem \<Rightarrow> bool" where
  "invalidMinDate lib p =
     (let minMoment = momentOf lib (defaultMeterMinimumDate p);
          maxMoment = momentOf lib (defaultMeterMaximumDate p)
      in \<not> isValid minMoment \<or> \<not> isSameOrAfter minMoment (MIN_DATE_MOMENT lib)
         \<or> \<not> isSameOrBefore minMoment maxMoment)"

definition invalidMaxDate :: "library \<Rightarrow> PreferenceRequestItem \<Rightarrow> bool" where
  "invalidMaxDate lib p =
     (let minMoment = momentOf lib (defaultMeterMinimumDate p);
          maxMoment = momentOf lib (defaultMeterMaximumDate p)
      in \<not> isValid maxMoment \<or> \<not> isSameOrBefore maxMoment (MAX_DATE_MOMENT lib)
         \<or> \<not> isSameOrAfter maxMoment minMoment)"

definition invalidReadingGap :: "library \<Rightarrow> PreferenceRequestItem \<Rightarrow> bool" where
  "invalidReadingGap lib p = num_less (Number lib (defaultMeterReadingGap p)) (Num 0)"

definition invalidMeterErrors :: "library \<Rightarrow> PreferenceRequestItem \<Rightarrow> bool" where
  "invalidMeterErrors lib p =
     (num_less (Number lib (defaultMeterMaximumErrors p)) (Num 0)
      \<or> num_greater (Number lib (defaultMeterMaximumErrors p)) (MAX_ERRORS lib))"

definition invalidFileSizeLimit :: "library \<Rightarrow> PreferenceRequestItem \<Rightarrow> bool" where
  "invalidFileSizeLimit lib p = num_less (Number lib (defaultFileSizeLimit p)) (Num 0)"

definition invalidWarningFileSize :: "library \<Rightarrow> PreferenceRequestItem \<Rightarrow> bool" where
  "invalidWarningFileSize lib p =
     (num_less (Number lib (defaultWarningFileSize p)) (Num 0)
      \<or> num_greater (Number lib (defaultWarningFileSize p)) (Number lib (defaultFileSizeLimit p)))"

text \<open>The \<^verbatim>\<open>disabled\<close> attribute of the Submit button.\<close>

definition submitDisabled :: "library \<Rightarrow> component \<Rightarrow> bool" where
  "submitDisabled lib st \<longleftrightarrow>
     \<not> hasChanges st \<or> invalidReadingFreq lib (localAdminPref st)
     \<or> invalidMinValue lib (localAdminPref st) \<or> invalidMaxValue lib (localAdminPref st)
     \<or> invalidMinDate lib (localAdminPref st) \<or> invalidMaxDate lib (localAdminPref st)
     \<or> invalidReadingGap lib (localAdminPref st) \<or> invalidMeterErrors lib (localAdminPref st)
     \<or> invalidFileSizeLimit lib (localAdminPref st) \<or> invalidWarningFileSize lib (localAdminPref st)"

text \<open>
  A click on the Submit button: a disabled button does not run its \<^verbatim>\<open>onClick\<close>; an
  enabled one calls \<^verbatim>\<open>submitPreferences(localAdminPref)\<close>. The result is the request
  handed to the mutation, if any.
\<close>

definition submitClick :: "library \<Rightarrow> component \<Rightarrow> PreferenceRequestItem option" where
  "submitClick lib st = (if submitDisabled lib st then None else Some (localAdminPref st))"

subsection \<open>A library instance and a form state\<close>

text \<open>
  Concrete parameters on which the definitions can be run: conversions that know the
  few texts of the example form, and bounds of the size the application uses.
\<close>

definition exampleLibrary :: library where
  "exampleLibrary =
     \<lparr>Number = (\<lambda>s. if s = ''0'' then Num 0 else if s = ''5'' then Num 5
                     else if s = ''25'' then Num 25 else if s = ''100'' then Num 100 else NaN),
      momentOf = (\<lambda>s. if s = ''1970-01-01 00:00:00''
                       then Moment \<lparr>year = 1970, month = 0, date = 1, hour = 0, minute = 0, second = 0, millisecond = 0\<rparr> 0
                       else if s = ''2500-01-01 00:00:00''
                       then Moment \<lparr>year = 2500, month = 0, date = 1, hour = 0, minute = 0, second = 0, millisecond = 0\<rparr> 0
                       else InvalidMoment),
      momentDuration = (\<lambda>s. if s = ''00:15:00'' then Duration 900 else InvalidDuration),
      MIN_VAL = Num (- 9007199254740991),
      MAX_VAL = Num 9007199254740991,
      MIN_DATE_MOMENT = Moment \<lparr>year = 970, month = 0, date = 1, hour = 0, minute = 0, second = 0, millisecond = 0\<rparr> 0,
      MAX_DATE_MOMENT = Moment \<lparr>year = 6970, month = 0, date = 1, hour = 0, minute = 0, second = 0, millisecond = 0\<rparr> 0,
      MAX_ERRORS = Num 75\<rparr>"

definition examplePreferences :: PreferenceRequestItem where
  "examplePreferences =
     \<lparr>defaultMeterReadingFrequency = ''00:15:00'',
      defaultMeterMinimumValue = ''0'',
      defaultMeterMaximumValue = ''100'',
      defaultMeterMinimumDate = ''1970-01-01 00:00:00'',
      defaultMeterMaximumDate = ''2500-01-01 00:00:00'',
      defaultMeterReadingGap = ''0'',
      defaultMeterMaximumErrors = ''25'',
      defaultFileSizeLimit = ''25'',
      defaultWarningFileSize = ''5''\<rparr>"

section \<open>Digits, formatting and parsing\<close>







lemma decimal_nonempty: "decimal n \<noteq> []"
  by (subst decimal.simps) simp








lemma not_digit_punct [simp]:
  "\<not> is_digit (CHR ''-'')" "\<not> is_digit (CHR '' '')" "\<not> is_digit (CHR '':'')" "\<not> is_digit (CHR ''/'')"
  by (simp_all add: is_digit_def)





































section \<open>Properties of the reset window test\<close>

subsection \<open>Runs on concrete inputs\<close>

text \<open>
  On a server in UTC, with the reading in UTC: for the window 23:00:00 to 23:59:59 on
  2023-05-01 a reading at 23:30:00 is inside and one at 12:00:00 is outside. A start
  string without digits leaves hour, minute and second at 0, so the window opens at
  midnight. 24:00:00 is read as midnight of the next day.
\<close>

lemma run_inside_window:
  "handleCumulativeReset (fixedZone 0)
     \<lparr>year = 2024, month = 0, date = 15, hour = 8, minute = 0, second = 0, millisecond = 0\<rparr>
     True ''23:00:00'' ''23:59:59''
     (Moment \<lparr>year = 2023, month = 4, date = 1, hour = 23, minute = 30, second = 0, millisecond = 0\<rparr> 0)"
  by code_simp

lemma run_outside_window:
  "\<not> handleCumulativeReset (fixedZone 0)
     \<lparr>year = 2024, month = 0, date = 15, hour = 8, minute = 0, second = 0, millisecond = 0\<rparr>
     True ''23:00:00'' ''23:59:59''
     (Moment \<lparr>year = 2023, month = 4, date = 1, hour = 12, minute = 0, second = 0, millisecond = 0\<rparr> 0)"
  by code_simp

lemma run_text_without_digits:
  "handleCumulativeReset (fixedZone 0)
     \<lparr>year = 2024, month = 0, date = 15, hour = 8, minute = 0, second = 0, millisecond = 0\<rparr>
     True ''midnight'' ''23:59:59''
     (Moment \<lparr>year = 2023, month = 4, date = 1, hour = 12, minute = 0, second = 0, millisecond = 0\<rparr> 0)"
  by code_simp

lemma run_end_of_day:
  "momentFromString (fixedZone 0)
     \<lparr>year = 2024, month = 0, date = 15, hour = 8, minute = 0, second = 0, millisecond = 0\<rparr>
     ''12-31-2023 24:00:00''
   = Moment \<lparr>year = 2024, month = 0, date = 1, hour = 0, minute = 0, second = 0, millisecond = 0\<rparr> 0"
  by code_simp

text \<open>
  In \<open>newYork2023\<close> the local time 02:45 of 12 March is skipped; it is shown as 03:45
  at 240 minutes behind UTC.
\<close>

lemma run_skipped_time:
  "momentFromString newYork2023
     \<lparr>year = 2024, month = 0, date = 15, hour = 8, minute = 0, second = 0, millisecond = 0\<rparr>
     ''03-12-2023 02:45:00''
   = Moment \<lparr>year = 2023, month = 2, date = 12, hour = 3, minute = 45, second = 0, millisecond = 0\<rparr>
       (- 240)"
  by code_simp

subsection \<open>The claims\<close>

text \<open>
  Claim C3. With \<open>cumulativeReset\<close> false the test answers false, whatever the window
  strings, the reading timestamp, the server's zone and the current date are.
\<close>

theorem reset_disabled_is_false:
  "handleCumulativeReset zone now False resetStart resetEnd startTimestamp = False"
  by (simp add: handleCumulativeReset_def)










text \<open>
  Claim C6, as the specification states it, asks for a validation error when a window
  string cannot be parsed or the reading timestamp is invalid. The function has no
  error result. With a start string whose fields are out of range it answers false.
\<close>

theorem reset_malformed_window_counterexample:
  "handleCumulativeReset (fixedZone 0)
     \<lparr>year = 2024, month = 0, date = 15, hour = 8, minute = 0, second = 0, millisecond = 0\<rparr>
     True ''99:99:99'' ''23:59:59''
     (Moment \<lparr>year = 2023, month = 4, date = 1, hour = 23, minute = 30, second = 0, millisecond = 0\<rparr> 0)
   = False"
  by code_simp

text \<open>
  Claim C6, amended. When the reading timestamp is invalid, or a window string put
  after the reading's date parses to an invalid moment, the test answers false: the
  outcome is the boolean, and no error is signalled.
\<close>

theorem reset_invalid_input_is_false:
  assumes "startTimestamp = InvalidMoment
           \<or> momentFromString zone now (format_MM_DD_YYYY startTimestamp @ '' '' @ resetStart) = InvalidMoment
           \<or> momentFromString zone now (format_MM_DD_YYYY startTimestamp @ '' '' @ resetEnd) = InvalidMoment"
  shows "handleCumulativeReset zone now cumulativeReset resetStart resetEnd startTimestamp = False"
proof -
  have a: "\<And>m. isSameOrAfter m InvalidMoment = False" "\<And>m. isSameOrAfter InvalidMoment m = False"
    by (case_tac m; simp)+
  have b: "\<And>m. isSameOrBefore m InvalidMoment = False" "\<And>m. isSameOrBefore InvalidMoment m = False"
    by (case_tac m; simp)+
  from assms show ?thesis
    unfolding handleCumulativeReset_def Let_def
    by (auto simp: a b)
qed

theorem reset_invalid_input_is_false_witness:
  "handleCumulativeReset (fixedZone 0)
     \<lparr>year = 2024, month = 0, date = 15, hour = 8, minute = 0, second = 0, millisecond = 0\<rparr>
     True ''00:00:00'' ''23:59:59'' InvalidMoment = False"
  using reset_invalid_input_is_false[of InvalidMoment] by simp

section \<open>Properties of the conversion table store\<close>

lemma insertSeq_append:
  "insertSeq (xs @ ys) st =
     (case insertSeq xs st of (Inl e, st') \<Rightarrow> (Inl e, st') | (Inr u, st') \<Rightarrow> insertSeq ys st')"
  by (induction xs arbitrary: st) (auto split: prod.splits sum.splits)

lemma isNaN_iff: "isNaN n \<longleftrightarrow> \<not> spec_isNumber n"
  by (cases n) simp_all

lemma insertColumns_insertSeq:
  "insertColumns r c cells st = insertSeq (spec_rowsOfCells r c cells) st"
  by (induction cells arbitrary: c st) (auto simp: spec_rowOf_def isNaN_iff split: prod.splits sum.splits)

lemma insertRows_insertSeq:
  "insertRows r cik st = insertSeq (spec_rowsOfMatrix r cik) st"
  by (induction cik arbitrary: r st)
     (auto simp: insertColumns_insertSeq insertSeq_append split: prod.splits sum.splits)

lemma insertNewConversion_row:
  "insertNewConversion (meter_unit_id x) (non_meter_unit_id x) (db_slope x) (db_intercept x) st =
     (if nextFails st then (Inl PersistenceError, consume st)
      else (Inr (), (consume st)\<lparr>table := table st @ [x]\<rparr>))"
  by (simp add: insertNewConversion_def)

lemma insertSeq_success:
  "insertSeq xs st = (Inr u, st') \<Longrightarrow> table st' = table st @ xs"
proof (induction xs arbitrary: st)
  case Nil
  then show ?case by simp
next
  case (Cons x xs)
  then show ?case
    by (auto simp: insertNewConversion_row consume_def split: if_splits)
qed

lemma insertSeq_no_failure:
  "\<forall>b \<in> set (take (length xs) (failures st)). \<not> b \<Longrightarrow>
   insertSeq xs st = (Inr (), st\<lparr>table := table st @ xs, failures := drop (length xs) (failures st)\<rparr>)"
proof (induction xs arbitrary: st)
  case Nil
  then show ?case by simp
next
  case (Cons x xs)
  show ?case
  proof (cases "failures st")
    case Nil
    with Cons.IH[of "(consume st)\<lparr>table := table st @ [x]\<rparr>"] show ?thesis
      by (simp add: insertNewConversion_row nextFails_def consume_def)
  next
    case (Cons b fs)
    with Cons.prems have "\<not> b" "\<forall>b \<in> set (take (length xs) fs). \<not> b" by auto
    with Cons Cons.IH[of "(consume st)\<lparr>table := table st @ [x]\<rparr>"] show ?thesis
      by (simp add: insertNewConversion_row nextFails_def consume_def)
  qed
qed

lemma insertSeq_failure:
  "failures st = replicate k False @ True # fs \<Longrightarrow> k < length xs \<Longrightarrow>
   insertSeq xs st = (Inl PersistenceError, st\<lparr>table := table st @ take k xs, failures := fs\<rparr>)"
proof (induction xs arbitrary: st k)
  case Nil
  then show ?case by simp
next
  case (Cons x xs)
  show ?case
  proof (cases k)
    case 0
    with Cons.prems show ?thesis
      by (simp add: insertNewConversion_row nextFails_def consume_def)
  next
    case (Suc j)
    with Cons.prems have f: "failures ((consume st)\<lparr>table := table st @ [x]\<rparr>) = replicate j False @ True # fs"
      and j: "j < length xs" by (simp_all add: consume_def)
    from Cons.prems Suc have nf: "\<not> nextFails st" by (simp add: nextFails_def)
    show ?thesis
      using Cons.IH[OF f j] nf Suc
      by (simp add: insertNewConversion_row consume_def)
  qed
qed

lemma filter_rowsOfCells:
  "filter (\<lambda>x. meter_unit_id x = r \<and> non_meter_unit_id x = c) (spec_rowsOfCells r0 c0 cells) =
     (if r = r0 \<and> c0 \<le> c \<and> c - c0 < length cells \<and> spec_isNumber (fst (cells ! (c - c0)))
      then [spec_rowOf r c (cells ! (c - c0))] else [])"
proof (induction cells arbitrary: c0)
  case Nil
  then show ?case by simp
next
  case (Cons cell cells)
  show ?case
  proof (cases "c = c0")
    case True
    then show ?thesis using Cons.IH[of "Suc c0"] by (auto simp: spec_rowOf_def)
  next
    case False
    then show ?thesis using Cons.IH[of "Suc c0"]
      by (auto simp: spec_rowOf_def Suc_diff_le nth_Cons')
  qed
qed

lemma filter_rowsOfMatrix:
  "filter (\<lambda>x. meter_unit_id x = r \<and> non_meter_unit_id x = c) (spec_rowsOfMatrix r0 cik) =
     (if r0 \<le> r \<and> r - r0 < length cik \<and> c < length (cik ! (r - r0))
         \<and> spec_isNumber (fst (cik ! (r - r0) ! c))
      then [spec_rowOf r c (cik ! (r - r0) ! c)] else [])"
proof (induction cik arbitrary: r0)
  case Nil
  then show ?case by simp
next
  case (Cons cells cik)
  show ?case
  proof (cases "r = r0")
    case True
    then show ?thesis using Cons.IH[of "Suc r0"] by (simp add: filter_rowsOfCells)
  next
    case False
    then show ?thesis using Cons.IH[of "Suc r0"]
      by (auto simp: filter_rowsOfCells Suc_diff_le nth_Cons')
  qed
qed

lemma insert_Cik_unfold:
  "insert_Cik cik st =
     (if nextFails st then (Inl PersistenceError, consume st)
      else insertSeq (spec_rows cik) ((consume st)\<lparr>table := []\<rparr>))"
  by (simp add: insert_Cik_def deleteAllConversions_def insertRows_insertSeq spec_rows_def)

text \<open>With no failure scheduled the call succeeds and leaves the rows of the matrix.\<close>

lemma insert_Cik_without_failure:
  "failures st = [] \<Longrightarrow> insert_Cik cik st = (Inr (), st\<lparr>table := spec_rows cik\<rparr>)"
  using insertSeq_no_failure[of "spec_rows cik" "(consume st)\<lparr>table := []\<rparr>"]
  by (simp add: insert_Cik_unfold nextFails_def consume_def)

text \<open>
  Claim C1. After a successful \<^verbatim>\<open>Cik.insert\<close> the table holds the rows of the matrix's
  defined cells and nothing else: for every row index and column index the stored rows
  with these two ids are the single row built from that cell (ids from the indices,
  slope and intercept from the first two components) when the cell exists and its
  slope is neither \<open>NaN\<close> nor undefined, and none otherwise.
\<close>

theorem replaceAll_stores_defined_cells:
  assumes "insert_Cik cik st = (Inr (), st')"
  shows "table st' = spec_rows cik
         \<and> (\<forall>r c. filter (\<lambda>x. meter_unit_id x = r \<and> non_meter_unit_id x = c) (table st')
                    = (if spec_definedCell cik r c then [spec_rowOf r c (cik ! r ! c)] else []))"
proof -
  from assms have t: "table st' = spec_rows cik"
    by (auto simp: insert_Cik_unfold split: if_splits dest: insertSeq_success)
  show ?thesis
    unfolding t spec_rows_def
    by (simp add: filter_rowsOfMatrix spec_definedCell_def)
qed

theorem replaceAll_stores_defined_cells_witness:
  "insert_Cik
     [replicate 6 (NaN, NaN, NaN), replicate 6 (Undefined, Undefined, Undefined),
      replicate 5 (NaN, NaN, NaN) @ [(Num (3 / 2), Num (1 / 5), Num 0)] ]
     \<lparr>table = [\<lparr>meter_unit_id = 0, non_meter_unit_id = 1, db_slope = Num 2, db_intercept = Num 0\<rparr>],
      failures = []\<rparr>
   = (Inr (), \<lparr>table = [\<lparr>meter_unit_id = 2, non_meter_unit_id = 5, db_slope = Num (3 / 2),
                            db_intercept = Num (1 / 5)\<rparr>], failures = []\<rparr>)
   \<and> spec_rows
     [replicate 6 (NaN, NaN, NaN), replicate 6 (Undefined, Undefined, Undefined),
      replicate 5 (NaN, NaN, NaN) @ [(Num (3 / 2), Num (1 / 5), Num 0)] ]
     = [\<lparr>meter_unit_id = 2, non_meter_unit_id = 5, db_slope = Num (3 / 2), db_intercept = Num (1 / 5)\<rparr>]"
proof -
  let ?m = "[replicate 6 (NaN, NaN, NaN), replicate 6 (Undefined, Undefined, Undefined),
      replicate 5 (NaN, NaN, NaN) @ [(Num (3 / 2), Num (1 / 5), Num 0)] ]"
  let ?st = "\<lparr>table = [\<lparr>meter_unit_id = 0, non_meter_unit_id = 1, db_slope = Num 2, db_intercept = Num 0\<rparr>],
      failures = []\<rparr>"
  let ?st' = "\<lparr>table = [\<lparr>meter_unit_id = 2, non_meter_unit_id = 5, db_slope = Num (3 / 2),
                            db_intercept = Num (1 / 5)\<rparr>], failures = []\<rparr>"
  have run: "insert_Cik ?m ?st = (Inr (), ?st')"
    by (simp add: insert_Cik_def deleteAllConversions_def nextFails_def consume_def
        insertNewConversion_def numeral_eq_Suc)
  from replaceAll_stores_defined_cells[OF run] have "table ?st' = spec_rows ?m" by blast
  with run show ?thesis by simp
qed

text \<open>
  Claim C4. \<^verbatim>\<open>Cik.insert\<close> replaces and does not merge: after two successful calls the
  table holds the rows of the second matrix only, and the second call first empties
  the table and then inserts into the empty table.
\<close>

theorem replaceAll_is_full_replace:
  assumes "insert_Cik cik1 st0 = (Inr (), st1)" and "insert_Cik cik2 st1 = (Inr (), st2)"
  shows "table st2 = spec_rows cik2
         \<and> (\<exists>d. deleteAllConversions st1 = (Inr (), d) \<and> table d = [] \<and> insertRows 0 cik2 d = (Inr (), st2))"
proof -
  from assms(2) have nf: "\<not> nextFails st1"
    by (auto simp: insert_Cik_unfold split: if_splits)
  then have d: "deleteAllConversions st1 = (Inr (), (consume st1)\<lparr>table := []\<rparr>)"
    by (simp add: deleteAllConversions_def)
  with assms(2) have i: "insertRows 0 cik2 ((consume st1)\<lparr>table := []\<rparr>) = (Inr (), st2)"
    by (simp add: insert_Cik_def)
  then have "table st2 = spec_rows cik2"
    by (auto simp: insertRows_insertSeq spec_rows_def dest: insertSeq_success)
  with d i show ?thesis by simp
qed

theorem replaceAll_is_full_replace_witness:
  "insert_Cik [ [(Num 2, Num 0, NaN), (NaN, NaN, NaN)] ] \<lparr>table = [], failures = []\<rparr>
     = (Inr (), \<lparr>table = [\<lparr>meter_unit_id = 0, non_meter_unit_id = 0, db_slope = Num 2, db_intercept = Num 0\<rparr>],
                 failures = []\<rparr>)
   \<and> insert_Cik [ [(NaN, NaN, NaN), (Num 3, Num 1, NaN)] ]
        \<lparr>table = [\<lparr>meter_unit_id = 0, non_meter_unit_id = 0, db_slope = Num 2, db_intercept = Num 0\<rparr>],
         failures = []\<rparr>
     = (Inr (), \<lparr>table = [\<lparr>meter_unit_id = 0, non_meter_unit_id = 1, db_slope = Num 3, db_intercept = Num 1\<rparr>],
                 failures = []\<rparr>)
   \<and> spec_rows [ [(NaN, NaN, NaN), (Num 3, Num 1, NaN)] ]
     = [\<lparr>meter_unit_id = 0, non_meter_unit_id = 1, db_slope = Num 3, db_intercept = Num 1\<rparr>]"
proof -
  let ?r1 = "\<lparr>meter_unit_id = 0, non_meter_unit_id = 0, db_slope = Num 2, db_intercept = Num 0\<rparr>"
  let ?r2 = "\<lparr>meter_unit_id = 0, non_meter_unit_id = 1, db_slope = Num 3, db_intercept = Num 1\<rparr>"
  have a: "insert_Cik [ [(Num 2, Num 0, NaN), (NaN, NaN, NaN)] ] \<lparr>table = [], failures = []\<rparr>
             = (Inr (), \<lparr>table = [?r1], failures = []\<rparr>)"
    by (simp add: insert_Cik_def deleteAllConversions_def nextFails_def consume_def insertNewConversion_def)
  have b: "insert_Cik [ [(NaN, NaN, NaN), (Num 3, Num 1, NaN)] ] \<lparr>table = [?r1], failures = []\<rparr>
             = (Inr (), \<lparr>table = [?r2], failures = []\<rparr>)"
    by (simp add: insert_Cik_def deleteAllConversions_def nextFails_def consume_def insertNewConversion_def)
  from replaceAll_is_full_replace[OF a b]
  have "table \<lparr>table = [?r2], failures = []\<rparr> = spec_rows [ [(NaN, NaN, NaN), (Num 3, Num 1, NaN)] ]"
    by blast
  with a b show ?thesis by simp
qed

text \<open>
  Claim C7, as the specification states it, says that after a failing insert the
  table is not the pre-call contents. That fails when the table already held the
  rows inserted before the failure: with one row for cell (0, 0) stored, a call
  whose delete and first insert succeed and whose second insert fails ends with the
  storage error and leaves the table equal to what it was before the call.
\<close>

theorem replaceAll_precall_contents_counterexample:
  "fst (insert_Cik [ [(Num 2, Num 0, NaN), (Num 3, Num 1, NaN)] ]
         \<lparr>table = [\<lparr>meter_unit_id = 0, non_meter_unit_id = 0, db_slope = Num 2, db_intercept = Num 0\<rparr>],
          failures = [False, False, True]\<rparr>) = Inl PersistenceError
   \<and> table (snd (insert_Cik [ [(Num 2, Num 0, NaN), (Num 3, Num 1, NaN)] ]
         \<lparr>table = [\<lparr>meter_unit_id = 0, non_meter_unit_id = 0, db_slope = Num 2, db_intercept = Num 0\<rparr>],
          failures = [False, False, True]\<rparr>))
     = table \<lparr>table = [\<lparr>meter_unit_id = 0, non_meter_unit_id = 0, db_slope = Num 2, db_intercept = Num 0\<rparr>],
          failures = [False, False, True]\<rparr>"
  by (simp add: insert_Cik_def deleteAllConversions_def nextFails_def consume_def insertNewConversion_def)

text \<open>
  Claim C7, amended. \<^verbatim>\<open>Cik.insert\<close> is not atomic: when the delete and the first \<open>k\<close>
  inserts succeed and the next insert fails, the call ends with the storage error
  and the table holds exactly the first \<open>k\<close> rows of the new contents, whatever it
  held before, and not all of the new contents. It equals the pre-call contents
  only if those were these same \<open>k\<close> rows.
\<close>

theorem replaceAll_not_atomic:
  assumes "failures st = replicate (Suc k) False @ True # fs" and "k < length (spec_rows cik)"
  shows "insert_Cik cik st = (Inl PersistenceError, st\<lparr>table := take k (spec_rows cik), failures := fs\<rparr>)
         \<and> length (take k (spec_rows cik)) = k
         \<and> take k (spec_rows cik) \<noteq> spec_rows cik
         \<and> (table (snd (insert_Cik cik st)) = table st \<longleftrightarrow> table st = take k (spec_rows cik))"
proof -
  from assms(1) have nf: "\<not> nextFails st" by (simp add: nextFails_def)
  from assms(1) have f: "failures ((consume st)\<lparr>table := []\<rparr>) = replicate k False @ True # fs"
    by (simp add: consume_def)
  have r: "insert_Cik cik st = (Inl PersistenceError, st\<lparr>table := take k (spec_rows cik), failures := fs\<rparr>)"
    using insertSeq_failure[OF f assms(2)] nf by (simp add: insert_Cik_unfold consume_def)
  moreover from assms(2) have "length (take k (spec_rows cik)) = k" by simp
  moreover from assms(2) have "take k (spec_rows cik) \<noteq> spec_rows cik"
    by (metis length_take min.absorb2 nat_less_le)
  moreover have "table (snd (insert_Cik cik st)) = table st \<longleftrightarrow> table st = take k (spec_rows cik)"
    unfolding r by auto
  ultimately show ?thesis by blast
qed

theorem replaceAll_not_atomic_witness:
  "insert_Cik [ [(Num 2, Num 0, NaN), (Num 3, Num 1, NaN)] ]
     \<lparr>table = [\<lparr>meter_unit_id = 7, non_meter_unit_id = 8, db_slope = Num 9, db_intercept = Num 0\<rparr>],
      failures = [False, False, True]\<rparr>
   = (Inl PersistenceError,
      \<lparr>table = [\<lparr>meter_unit_id = 0, non_meter_unit_id = 0, db_slope = Num 2, db_intercept = Num 0\<rparr>],
       failures = []\<rparr>)"
proof -
  let ?m = "[ [(Num 2, Num 0, NaN), (Num 3, Num 1, NaN)] ]"
  let ?st = "\<lparr>table = [\<lparr>meter_unit_id = 7, non_meter_unit_id = 8, db_slope = Num 9, db_intercept = Num 0\<rparr>],
      failures = [False, False, True]\<rparr>"
  have e: "spec_rows ?m =
     [\<lparr>meter_unit_id = 0, non_meter_unit_id = 0, db_slope = Num 2, db_intercept = Num 0\<rparr>,
      \<lparr>meter_unit_id = 0, non_meter_unit_id = 1, db_slope = Num 3, db_intercept = Num 1\<rparr>]"
    by (simp add: spec_rows_def spec_rowOf_def)
  have f: "failures ?st = replicate (Suc 1) False @ True # []" by (simp add: numeral_eq_Suc)
  have k: "1 < length (spec_rows ?m)" by (simp add: e)
  from replaceAll_not_atomic[OF f k] show ?thesis by (simp add: e)
qed

text \<open>
  Claim C8. When the query succeeds, \<^verbatim>\<open>Cik.getAll\<close> returns the stored rows in table order,
  each mapped to a coefficient with the same four values, none left out and none
  changed, and leaves the table as it is.
\<close>

theorem getAll_projects_rows:
  assumes "\<not> nextFails st"
  shows "\<exists>cs. getAll st = (Inr cs, consume st) \<and> table (consume st) = table st
           \<and> cs = map mapRow (table st) \<and> length cs = length (table st)
           \<and> (\<forall>i < length cs. meterUnitId (cs ! i) = meter_unit_id (table st ! i)
                  \<and> nonMeterUnitId (cs ! i) = non_meter_unit_id (table st ! i)
                  \<and> slope (cs ! i) = db_slope (table st ! i)
                  \<and> intercept (cs ! i) = db_intercept (table st ! i))"
  using assms by (simp add: getAll_def getCik_def consume_def mapRow_def)

theorem getAll_projects_rows_witness:
  "getAll \<lparr>table = [\<lparr>meter_unit_id = 2, non_meter_unit_id = 5, db_slope = Num (3 / 2), db_intercept = Num (1 / 5)\<rparr>],
          failures = []\<rparr>
   = (Inr [\<lparr>meterUnitId = 2, nonMeterUnitId = 5, slope = Num (3 / 2), intercept = Num (1 / 5)\<rparr>],
      \<lparr>table = [\<lparr>meter_unit_id = 2, non_meter_unit_id = 5, db_slope = Num (3 / 2), db_intercept = Num (1 / 5)\<rparr>],
       failures = []\<rparr>)"
proof -
  let ?st = "\<lparr>table = [\<lparr>meter_unit_id = 2, non_meter_unit_id = 5, db_slope = Num (3 / 2), db_intercept = Num (1 / 5)\<rparr>],
          failures = []\<rparr>"
  have n: "\<not> nextFails ?st" by (simp add: nextFails_def)
  from getAll_projects_rows[OF n] show ?thesis by (simp add: consume_def mapRow_def)
qed

section \<open>Properties of the preferences form\<close>

text \<open>
  Claim C9. The Submit button is disabled, and a click submits nothing, whenever there
  are no unsaved changes or one of the nine validity checks reports the local
  preferences invalid; a click that submits hands over the local preferences, there
  are unsaved changes, and every check passes.
\<close>

theorem submit_blocked_when_invalid:
  "(\<not> hasChanges st \<or> invalidReadingFreq lib (localAdminPref st)
      \<or> invalidMinValue lib (localAdminPref st) \<or> invalidMaxValue lib (localAdminPref st)
      \<or> invalidMinDate lib (localAdminPref st) \<or> invalidMaxDate lib (localAdminPref st)
      \<or> invalidReadingGap lib (localAdminPref st) \<or> invalidMeterErrors lib (localAdminPref st)
      \<or> invalidFileSizeLimit lib (localAdminPref st) \<or> invalidWarningFileSize lib (localAdminPref st)
    \<longrightarrow> submitDisabled lib st \<and> submitClick lib st = None)
   \<and> (submitClick lib st = Some p
    \<longrightarrow> p = localAdminPref st \<and> hasChanges st \<and> \<not> invalidReadingFreq lib p
        \<and> \<not> invalidMinValue lib p \<and> \<not> invalidMaxValue lib p
        \<and> \<not> invalidMinDate lib p \<and> \<not> invalidMaxDate lib p
        \<and> \<not> invalidReadingGap lib p \<and> \<not> invalidMeterErrors lib p
        \<and> \<not> invalidFileSizeLimit lib p \<and> \<not> invalidWarningFileSize lib p)"
  unfolding submitClick_def submitDisabled_def by (auto split: if_splits)

theorem submit_blocked_when_invalid_witness:
  "\<not> hasChanges \<lparr>localAdminPref = examplePreferences, hasChanges = False\<rparr>
   \<and> submitDisabled exampleLibrary \<lparr>localAdminPref = examplePreferences, hasChanges = False\<rparr>
   \<and> submitClick exampleLibrary \<lparr>localAdminPref = examplePreferences, hasChanges = False\<rparr> = None
   \<and> submitClick exampleLibrary \<lparr>localAdminPref = examplePreferences, hasChanges = True\<rparr>
       = Some examplePreferences
   \<and> \<not> invalidMinDate exampleLibrary examplePreferences"
proof -
  let ?off = "\<lparr>localAdminPref = examplePreferences, hasChanges = False\<rparr>"
  let ?on = "\<lparr>localAdminPref = examplePreferences, hasChanges = True\<rparr>"
  have h: "\<not> hasChanges ?off" by simp
  have c: "submitClick exampleLibrary ?on = Some examplePreferences"
    by (simp add: submitClick_def submitDisabled_def exampleLibrary_def examplePreferences_def
        invalidReadingFreq_def invalidMinValue_def invalidMaxValue_def invalidMinDate_def
        invalidMaxDate_def invalidReadingGap_def invalidMeterErrors_def invalidFileSizeLimit_def
        invalidWarningFileSize_def valueOf_def localMs_def daysFromCivil_def timeOfDayMs_def)
  from submit_blocked_when_invalid[of ?off exampleLibrary] h
  have "submitDisabled exampleLibrary ?off \<and> submitClick exampleLibrary ?off = None" by blast
  moreover from submit_blocked_when_invalid[of ?on exampleLibrary examplePreferences] c
  have "\<not> invalidMinDate exampleLibrary examplePreferences" by blast
  ultimately show ?thesis using h c by blast
qed

end
